theory Spec2Isabelle
  imports Main "HOL-Library.AList" "HOL-Library.Sublist"
begin

section \<open>Values, documents and text\<close>

text \<open>
  The handlers of \<^verbatim>\<open>main.py\<close> work on Python dictionaries: the documents of the store,
  the filter handed to the store and the JSON objects they answer with. A dictionary is
  an association list in insertion order, read with \<open>map_of\<close>, assigned to with
  \<open>AList.update\<close> (an existing key keeps its place, a new key goes to the end, as in
  Python) and popped with \<open>AList.delete\<close>.

  Text is a \<open>string\<close>, the UTF-8 bytes of the Python \<open>str\<close>; for ASCII text a byte is a
  character. A float is held as its \<open>repr\<close>: Python prints the shortest decimal that reads
  back as the same float, so the text \<open>24.99\<close> identifies the float the literal
  \<^verbatim>\<open>24.99\<close> denotes. An \<open>ObjectId\<close> is held as the number its twelve bytes spell.
\<close>

datatype pyval =
    PBool bool
  | PInt int
  | PFloat string
  | PStr string
  | PObjectId nat
  | PList "pyval list"

type_synonym doc = "(string \<times> pyval) list"

definition digit_char :: "nat \<Rightarrow> char" where
  "digit_char d = ''0123456789abcdef'' ! d"

fun decimal :: "nat \<Rightarrow> string" where
  "decimal n = (if n < 10 then [digit_char n] else decimal (n div 10) @ [digit_char (n mod 10)])"

declare decimal.simps [simp del]

text \<open>The text of an \<open>ObjectId\<close>: its twelve bytes as 24 lower-case hexadecimal digits.\<close>

definition hex24 :: "nat \<Rightarrow> string" where
  "hex24 n =
     map (\<lambda>i. digit_char ((n div 16 ^ i) mod 16))
       [23, 22, 21, 20, 19, 18, 17, 16, 15, 14, 13, 12, 11, 10, 9, 8, 7, 6, 5, 4, 3, 2, 1, 0]"

definition join :: "string \<Rightarrow> string list \<Rightarrow> string" where
  "join sep xs = (case xs of [] \<Rightarrow> [] | y # ys \<Rightarrow> y @ concat (map (\<lambda>z. sep @ z) ys))"

text \<open>
  \<open>repr\<close> of a \<open>str\<close>: single quotes, unless the text holds a single quote and no double
  quote; the backslash and the chosen quote are escaped, and so are the control characters.
\<close>

definition repr_char :: "char \<Rightarrow> char \<Rightarrow> string" where
  "repr_char q c =
     (if c = CHR 0x5C then [CHR 0x5C, CHR 0x5C]
      else if c = q then [CHR 0x5C, q]
      else if c = CHR 0x0A then [CHR 0x5C, CHR ''n'']
      else if c = CHR 0x0D then [CHR 0x5C, CHR ''r'']
      else if c = CHR 0x09 then [CHR 0x5C, CHR ''t'']
      else if (of_char c :: nat) < 32 \<or> (of_char c :: nat) = 127
        then [CHR 0x5C, CHR ''x'', digit_char ((of_char c) div 16), digit_char ((of_char c) mod 16)]
      else [c])"

definition repr_str :: "string \<Rightarrow> string" where
  "repr_str s =
     (let q = (if CHR 0x27 \<in> set s \<and> CHR 0x22 \<notin> set s then CHR 0x22 else CHR 0x27)
      in [q] @ concat (map (repr_char q) s) @ [q])"

fun py_str :: "pyval \<Rightarrow> string" and py_repr :: "pyval \<Rightarrow> string" where
  "py_str (PBool b) = (if b then ''True'' else ''False'')"
| "py_str (PInt i) = (if i < 0 then ''-'' @ decimal (nat (- i)) else decimal (nat i))"
| "py_str (PFloat r) = r"
| "py_str (PStr s) = s"
| "py_str (PObjectId n) = hex24 n"
| "py_str (PList xs) = ''['' @ join '', '' (map py_repr xs) @ '']''"
| "py_repr (PStr s) = repr_str s"
| "py_repr (PObjectId n) = ''ObjectId('' @ [CHR 0x27] @ hex24 n @ [CHR 0x27] @ '')''"
| "py_repr (PBool b) = py_str (PBool b)"
| "py_repr (PInt i) = py_str (PInt i)"
| "py_repr (PFloat r) = py_str (PFloat r)"
| "py_repr (PList xs) = py_str (PList xs)"

text \<open>Truthiness of an \<open>Optional[str]\<close>: \<open>None\<close> and the empty text are false.\<close>

definition truthy :: "string option \<Rightarrow> bool" where
  "truthy s = (case s of None \<Rightarrow> False | Some v \<Rightarrow> v \<noteq> [])"

text \<open>
  The first \<open>n\<close> characters of a text, \<^verbatim>\<open>s[:n]\<close>. Python counts code points; in UTF-8
  a code point is a byte that is no continuation byte (\<open>0x80\<close> to \<open>0xBF\<close>), followed by
  its continuation bytes.
\<close>

definition continuation :: "char \<Rightarrow> bool" where
  "continuation c = (128 \<le> (of_char c :: nat) \<and> (of_char c :: nat) < 192)"

fun take_chars :: "nat \<Rightarrow> string \<Rightarrow> string" where
  "take_chars n [] = []"
| "take_chars n (c # cs) =
     (if continuation c then c # take_chars n cs
      else (case n of 0 \<Rightarrow> [] | Suc m \<Rightarrow> c # take_chars m cs))"

text \<open>The lower case of an ASCII character: the capital letters are the codes 65 to 90.\<close>

definition lower_char :: "char \<Rightarrow> char" where
  "lower_char c =
     (if 65 \<le> (of_char c :: nat) \<and> (of_char c :: nat) \<le> 90
      then ''abcdefghijklmnopqrstuvwxyz'' ! ((of_char c :: nat) - 65)
      else c)"

section \<open>The document store\<close>

subsection \<open>Regular expressions\<close>

text \<open>
  The store matches \<^verbatim>\<open>{"$regex": pat, "$options": opts}\<close> with a Perl-compatible engine on
  UTF-8 text, unanchored. This model interprets the patterns in which the only special
  character is the dot, with the option \<open>i\<close> or no option: a dot matches one character
  other than the line feed, every other stretch of the pattern matches itself, and the
  pattern matches a text when it matches at some position of it. With the option \<open>i\<close>
  pattern and text are compared after case folding. The engine's case folding (of all
  of Unicode) comes with the store, and so does what the engine does with any other
  pattern or option: it refuses the pattern with an error, or it has a test on texts.
\<close>

definition regex_special :: "char list" where
  "regex_special = ''.^$*+?()[]{}|'' @ [CHR 0x5C]"

text \<open>The patterns and options this model interprets. A pattern that holds the byte 0 is
  not among them: the store refuses it.\<close>

definition interpreted :: "string \<Rightarrow> string \<Rightarrow> bool" where
  "interpreted pat opts =
     ((opts = [] \<or> opts = ''i'')
      \<and> list_all (\<lambda>c. c \<noteq> CHR 0x00 \<and> (c = CHR ''.'' \<or> c \<notin> set regex_special)) pat)"

datatype atom = Lits string | AnyChar

text \<open>A pattern of the interpreted part as stretches of literal text with dots between.\<close>

fun atoms :: "string \<Rightarrow> atom list" where
  "atoms [] = [Lits []]"
| "atoms (c # cs) =
     (if c = CHR ''.'' then Lits [] # AnyChar # atoms cs
      else (case atoms cs of
              Lits r # as \<Rightarrow> Lits (c # r) # as
            | as \<Rightarrow> Lits [c] # as))"

fun fold_atom :: "(string \<Rightarrow> string) \<Rightarrow> atom \<Rightarrow> atom" where
  "fold_atom f (Lits r) = Lits (f r)"
| "fold_atom f AnyChar = AnyChar"

text \<open>A dot takes one character of the text: a byte and the continuation bytes after it.\<close>

fun match_here :: "atom list \<Rightarrow> string \<Rightarrow> bool" where
  "match_here [] t = True"
| "match_here (Lits r # as) t = (prefix r t \<and> match_here as (drop (length r) t))"
| "match_here (AnyChar # as) [] = False"
| "match_here (AnyChar # as) (c # cs) =
     (c \<noteq> CHR 0x0A \<and> match_here as (dropWhile continuation cs))"

fun match_anywhere :: "atom list \<Rightarrow> string \<Rightarrow> bool" where
  "match_anywhere as [] = match_here as []"
| "match_anywhere as (c # cs) = (match_here as (c # cs) \<or> match_anywhere as cs)"

definition interpreted_search :: "(string \<Rightarrow> string) \<Rightarrow> string \<Rightarrow> string \<Rightarrow> string \<Rightarrow> bool" where
  "interpreted_search f pat opts t =
     (if CHR ''i'' \<in> set opts
      then match_anywhere (map (fold_atom f) (atoms pat)) (f t)
      else match_anywhere (atoms pat) t)"

subsection \<open>State\<close>

text \<open>
  The store behind the handle \<open>db\<close>: the name of the database (if the handle has a
  \<open>name\<close> attribute), its collections in the order they were created, each with its
  documents in the order they were stored, the number the next \<open>ObjectId\<close> is made of,
  whether the store is out of reach, and its regular-expression engine: the case folding,
  and the engine's answer to a pattern and options outside the interpreted part (\<open>Inl\<close>
  the text of the error it refuses the pattern with, \<open>Inr\<close> its test on texts). While the
  store is out of reach every operation raises an exception; \<open>outage\<close> holds the text
  \<open>str(e)\<close> of that exception. An operation that raises is \<open>Inl\<close> of the exception's
  text.
\<close>

record store =
  name :: "string option"
  colls :: "(string \<times> doc list) list"
  next_id :: nat
  outage :: "string option"
  casefold :: "string \<Rightarrow> string"
  other_patterns :: "string \<Rightarrow> string \<Rightarrow> string + (string \<Rightarrow> bool)"

definition docs_of :: "store \<Rightarrow> string \<Rightarrow> doc list" where
  "docs_of st coll = (case map_of (colls st) coll of None \<Rightarrow> [] | Some ds \<Rightarrow> ds)"

definition regex_compile :: "store \<Rightarrow> string \<Rightarrow> string \<Rightarrow> string + (string \<Rightarrow> bool)" where
  "regex_compile st pat opts =
     (if interpreted pat opts then Inr (interpreted_search (casefold st) pat opts)
      else other_patterns st pat opts)"

subsection \<open>Filters\<close>

text \<open>
  The filters \<open>list_products\<close> builds have two kinds of entries: a field with a condition
  on it (the text to equal, or a regular expression with its options), and \<^verbatim>\<open>"$or"\<close> with
  a list of alternatives, each a dictionary of fields with conditions. A document
  satisfies a filter when it satisfies every entry. A condition on a field that holds a
  list is satisfied when an element of the list satisfies it; a field that is absent, or
  holds no text, satisfies neither kind of condition. A filter with a regular expression
  the engine refuses is refused as a whole, with the engine's error.
\<close>

datatype cond = Equals string | Regex string string

type_synonym subquery = "(string \<times> cond) list"

datatype clause = Field string cond | Or "subquery list"

type_synonym query = "clause list"

fun texts :: "pyval option \<Rightarrow> string list" where
  "texts (Some (PStr s)) = [s]"
| "texts (Some (PList xs)) = concat (map (\<lambda>x. case x of PStr s \<Rightarrow> [s] | _ \<Rightarrow> []) xs)"
| "texts _ = []"

fun match_cond :: "store \<Rightarrow> cond \<Rightarrow> pyval option \<Rightarrow> bool" where
  "match_cond st (Equals s) v = (s \<in> set (texts v))"
| "match_cond st (Regex pat opts) v =
     (case regex_compile st pat opts of
        Inr test \<Rightarrow> list_ex test (texts v)
      | Inl e \<Rightarrow> False)"

definition match_sub :: "store \<Rightarrow> subquery \<Rightarrow> doc \<Rightarrow> bool" where
  "match_sub st sq d = list_all (\<lambda>(k, c). match_cond st c (map_of d k)) sq"

fun match_clause :: "store \<Rightarrow> clause \<Rightarrow> doc \<Rightarrow> bool" where
  "match_clause st (Field k c) d = match_cond st c (map_of d k)"
| "match_clause st (Or alts) d = list_ex (\<lambda>sq. match_sub st sq d) alts"

definition matches :: "store \<Rightarrow> query \<Rightarrow> doc \<Rightarrow> bool" where
  "matches st q d = list_all (\<lambda>cl. match_clause st cl d) q"

fun clause_conds :: "clause \<Rightarrow> cond list" where
  "clause_conds (Field k c) = [c]"
| "clause_conds (Or alts) = map snd (concat alts)"

fun first_error :: "store \<Rightarrow> cond list \<Rightarrow> string option" where
  "first_error st [] = None"
| "first_error st (Equals s # cs) = first_error st cs"
| "first_error st (Regex pat opts # cs) =
     (case regex_compile st pat opts of
        Inl e \<Rightarrow> Some e
      | Inr test \<Rightarrow> first_error st cs)"

definition query_error :: "store \<Rightarrow> query \<Rightarrow> string option" where
  "query_error st q = first_error st (concat (map clause_conds q))"

subsection \<open>Operations\<close>

text \<open>\<^verbatim>\<open>db[coll].count_documents({})\<close>\<close>

definition count_documents :: "store \<Rightarrow> string \<Rightarrow> string + nat" where
  "count_documents st coll =
     (case outage st of Some m \<Rightarrow> Inl m | None \<Rightarrow> Inr (length (docs_of st coll)))"

definition duplicate_key :: string where
  "duplicate_key = ''E11000 duplicate key error''"

text \<open>
  \<^verbatim>\<open>db[coll].insert_one(d)\<close>: a document without \<^verbatim>\<open>_id\<close> gets a new \<open>ObjectId\<close>; one that
  brings its \<^verbatim>\<open>_id\<close> keeps it, and is refused when the collection has that \<^verbatim>\<open>_id\<close>
  already. The stored document has \<^verbatim>\<open>_id\<close> as its first field. The result is the
  \<^verbatim>\<open>inserted_id\<close>.
\<close>

definition insert_one :: "store \<Rightarrow> string \<Rightarrow> doc \<Rightarrow> (string + pyval) \<times> store" where
  "insert_one st coll d =
     (case outage st of
        Some m \<Rightarrow> (Inl m, st)
      | None \<Rightarrow>
          (case map_of d ''_id'' of
             None \<Rightarrow>
               (Inr (PObjectId (next_id st)),
                st\<lparr>colls := AList.update coll
                       (docs_of st coll @ [(''_id'', PObjectId (next_id st)) # d]) (colls st),
                   next_id := Suc (next_id st)\<rparr>)
           | Some v \<Rightarrow>
               (if list_ex (\<lambda>e. map_of e ''_id'' = Some v) (docs_of st coll)
                then (Inl duplicate_key, st)
                else (Inr v,
                      st\<lparr>colls := AList.update coll
                        (docs_of st coll @ [(''_id'', v) # AList.delete ''_id'' d]) (colls st)\<rparr>))))"

text \<open>
  \<^verbatim>\<open>db[coll].find(q)\<close>: the documents that satisfy the filter, in the order of the
  collection; an exception when the store is out of reach or refuses the filter.
\<close>

definition find_documents :: "store \<Rightarrow> string \<Rightarrow> query \<Rightarrow> string + doc list" where
  "find_documents st coll q =
     (case outage st of
        Some m \<Rightarrow> Inl m
      | None \<Rightarrow>
          (case query_error st q of
             Some e \<Rightarrow> Inl e
           | None \<Rightarrow> Inr (filter (matches st q) (docs_of st coll))))"

text \<open>\<^verbatim>\<open>db.list_collection_names()\<close>\<close>

definition list_collection_names :: "store \<Rightarrow> string + string list" where
  "list_collection_names st =
     (case outage st of Some m \<Rightarrow> Inl m | None \<Rightarrow> Inr (map fst (colls st)))"

section \<open>The store adapter\<close>

text \<open>
  Modelled from the spec: the module \<^verbatim>\<open>database\<close> (the handle \<open>db\<close>, \<open>create_document\<close>,
  \<open>get_documents\<close>) is imported by \<^verbatim>\<open>main.py\<close> and is not among the sources. The
  spec, section 4.1: \<open>createDocument(collectionName, record)\<close> inserts the record into the
  named collection and returns its assigned identifier as text, and fails with a store
  error if the store is unreachable or the write is rejected;
  \<open>getDocuments(collectionName, filter, limit)\<close> returns up to \<open>limit\<close> matching records
  in store-native order: here the first \<open>limit\<close> of the matching documents, all of
  them when there are fewer, none of them when \<open>limit\<close> is below 1. The handle \<open>db\<close> is \<open>None\<close> when the store was never
  initialized; the adapter then fails, and the spec does not give the text of that error.
\<close>

definition store_unreachable :: string where
  "store_unreachable = ''Database not available''"

definition create_document ::
    "store option \<Rightarrow> string \<Rightarrow> doc \<Rightarrow> (string + string) \<times> store option" where
  "create_document db collection_name record =
     (case db of
        None \<Rightarrow> (Inl store_unreachable, None)
      | Some st \<Rightarrow>
          (case insert_one st collection_name record of
             (Inl m, st') \<Rightarrow> (Inl m, Some st')
           | (Inr oid, st') \<Rightarrow> (Inr (py_str oid), Some st')))"

definition get_documents ::
    "store option \<Rightarrow> string \<Rightarrow> query \<Rightarrow> int \<Rightarrow> string + doc list" where
  "get_documents db collection_name filter_dict limit =
     (case db of
        None \<Rightarrow> Inl store_unreachable
      | Some st \<Rightarrow>
          (case find_documents st collection_name filter_dict of
             Inl m \<Rightarrow> Inl m
           | Inr ds \<Rightarrow> Inr (take (nat limit) ds)))"

section \<open>The handlers of main.py\<close>

text \<open>
  A handler takes the handle \<open>db\<close> and its arguments and gives its outcome with the handle
  after the call. It either returns a value (\<open>Inr\<close>) or raises (\<open>Inl\<close>): an
  \<open>HTTPException\<close> with status code and detail, or another exception with its text.
\<close>

datatype exn = HTTPException nat string | Exception string

subsection \<open>GET /test\<close>

record response =
  backend :: string
  database :: string
  database_url :: "string option"
  database_name :: "string option"
  connection_status :: string
  collections :: "string list"

definition check_mark :: string where
  "check_mark = [CHR 0xE2, CHR 0x9C, CHR 0x85]"

definition cross_mark :: string where
  "cross_mark = [CHR 0xE2, CHR 0x9D, CHR 0x8C]"

definition warning_sign :: string where
  "warning_sign = [CHR 0xE2, CHR 0x9A, CHR 0xA0, CHR 0xEF, CHR 0xB8, CHR 0x8F]"

text \<open>\<^verbatim>\<open>os.getenv(k)\<close> is \<open>env k\<close>. No statement of the outer \<^verbatim>\<open>try\<close> raises outside the
  inner one, so the outer handler has nothing to catch.\<close>

definition test_database ::
    "store option \<Rightarrow> (string \<Rightarrow> string option) \<Rightarrow> (exn + response) \<times> store option" where
  "test_database db env =
     (let response = \<lparr>backend = check_mark @ '' Running'',
                       database = cross_mark @ '' Not Available'',
                       database_url = None,
                       database_name = None,
                       connection_status = ''Not Connected'',
                       collections = []\<rparr>;
          response =
            (case db of
               Some st \<Rightarrow>
                 (let response = response\<lparr>database := check_mark @ '' Available''\<rparr>;
                      response = response\<lparr>database_url := Some (check_mark @ '' Configured'')\<rparr>;
                      response = response\<lparr>database_name :=
                        Some (case name st of Some n \<Rightarrow> n | None \<Rightarrow> check_mark @ '' Connected'')\<rparr>;
                      response = response\<lparr>connection_status := ''Connected''\<rparr>
                  in (case list_collection_names st of
                        Inr names \<Rightarrow>
                          (let response = response\<lparr>collections := take 10 names\<rparr>
                           in response\<lparr>database := check_mark @ '' Connected & Working''\<rparr>)
                      | Inl e \<Rightarrow>
                          response\<lparr>database :=
                            warning_sign @ ''  Connected but Error: '' @ take_chars 50 e\<rparr>))
             | None \<Rightarrow>
                 response\<lparr>database := warning_sign @ ''  Available but not initialized''\<rparr>);
          response = response\<lparr>database_url :=
            Some (if truthy (env ''DATABASE_URL'') then check_mark @ '' Set''
                  else cross_mark @ '' Not Set'')\<rparr>;
          response = response\<lparr>database_name :=
            Some (if truthy (env ''DATABASE_NAME'') then check_mark @ '' Set''
                  else cross_mark @ '' Not Set'')\<rparr>
      in (Inr response, db))"

subsection \<open>GET /api/products\<close>

text \<open>The filter of lines 69 to 77.\<close>

definition product_query :: "string option \<Rightarrow> string option \<Rightarrow> query" where
  "product_query category search =
     (let query = [];
          query = (if truthy category
                   then query @ [Field ''category'' (Equals (the category))] else query);
          query = (if truthy search
                   then query @ [Or [[(''title'', Regex (the search) ''i'')],
                                     [(''description'', Regex (the search) ''i'')]]]
                   else query)
      in query)"

text \<open>\<^verbatim>\<open>if "_id" in p: p["id"] = str(p.pop("_id"))\<close>\<close>

definition rename_id :: "doc \<Rightarrow> doc" where
  "rename_id p =
     (case map_of p ''_id'' of
        Some v \<Rightarrow> AList.update ''id'' (PStr (py_str v)) (AList.delete ''_id'' p)
      | None \<Rightarrow> p)"

text \<open>
  \<open>limit\<close> is \<open>None\<close> when the caller gives no limit; the signature's default is 100. An
  exception of \<open>get_documents\<close> is not caught here.
\<close>

definition list_products ::
    "store option \<Rightarrow> string option \<Rightarrow> string option \<Rightarrow> int option
      \<Rightarrow> (exn + doc list) \<times> store option" where
  "list_products db category search limit =
     (case db of
        None \<Rightarrow> (Inl (HTTPException 500 ''Database not configured''), db)
      | Some st \<Rightarrow>
          (case get_documents db ''product'' (product_query category search)
                  (case limit of None \<Rightarrow> 100 | Some l \<Rightarrow> l) of
             Inl m \<Rightarrow> (Inl (Exception m), db)
           | Inr products \<Rightarrow> (Inr (map rename_id products), db)))"

subsection \<open>POST /api/products and POST /api/orders\<close>

definition create_product :: "store option \<Rightarrow> doc \<Rightarrow> (exn + doc) \<times> store option" where
  "create_product db product =
     (case create_document db ''product'' product of
        (Inr inserted_id, db') \<Rightarrow> (Inr [(''id'', PStr inserted_id)], db')
      | (Inl e, db') \<Rightarrow> (Inl (HTTPException 500 e), db'))"

definition create_order :: "store option \<Rightarrow> doc \<Rightarrow> (exn + doc) \<times> store option" where
  "create_order db order =
     (case create_document db ''order'' order of
        (Inr inserted_id, db') \<Rightarrow>
          (Inr [(''id'', PStr inserted_id), (''status'', PStr ''received'')], db')
      | (Inl e, db') \<Rightarrow> (Inl (HTTPException 500 e), db'))"

subsection \<open>POST /api/seed\<close>

definition sizes_S_to_XL :: pyval where
  "sizes_S_to_XL = PList [PStr ''S'', PStr ''M'', PStr ''L'', PStr ''XL'']"

definition docs :: "doc list" where
  "docs =
     [[(''title'', PStr ''Classic DYFN Tee''),
       (''description'', PStr ''Premium cotton t-shirt with DYFN logo.''),
       (''price'', PFloat ''24.99''),
       (''category'', PStr ''tshirt''),
       (''image'', PStr ''https://images.unsplash.com/photo-1512436991641-6745cdb1723f?q=80&w=1200&auto=format&fit=crop''),
       (''in_stock'', PBool True),
       (''sizes'', sizes_S_to_XL)],
      [(''title'', PStr ''Oversized DYFN Tee''),
       (''description'', PStr ''Relaxed fit, ultra-soft fabric.''),
       (''price'', PFloat ''29.99''),
       (''category'', PStr ''tshirt''),
       (''image'', PStr ''https://images.unsplash.com/photo-1520975916090-3105956dac38?q=80&w=1200&auto=format&fit=crop''),
       (''in_stock'', PBool True),
       (''sizes'', sizes_S_to_XL)],
      [(''title'', PStr ''DYFN Essential Hoodie''),
       (''description'', PStr ''Midweight fleece hoodie for everyday wear.''),
       (''price'', PFloat ''49.99''),
       (''category'', PStr ''hoodie''),
       (''image'', PStr ''https://images.unsplash.com/photo-1544441893-675973e31985?q=80&w=1200&auto=format&fit=crop''),
       (''in_stock'', PBool True),
       (''sizes'', sizes_S_to_XL)],
      [(''title'', PStr ''DYFN Heavyweight Hoodie''),
       (''description'', PStr ''Thick, cozy, perfect for cold days.''),
       (''price'', PFloat ''59.99''),
       (''category'', PStr ''hoodie''),
       (''image'', PStr ''https://images.unsplash.com/photo-1548883354-7622d03aca9b?q=80&w=1200&auto=format&fit=crop''),
       (''in_stock'', PBool True),
       (''sizes'', sizes_S_to_XL)]]"

text \<open>\<^verbatim>\<open>for d in docs: _ = db["product"].insert_one({**d})\<close>; the first insert that raises
  ends the loop.\<close>

fun insert_each :: "store \<Rightarrow> string \<Rightarrow> doc list \<Rightarrow> (string + unit) \<times> store" where
  "insert_each st coll [] = (Inr (), st)"
| "insert_each st coll (d # ds) =
     (case insert_one st coll d of
        (Inl e, st') \<Rightarrow> (Inl e, st')
      | (Inr _, st') \<Rightarrow> insert_each st' coll ds)"

definition seed_products :: "store option \<Rightarrow> (exn + doc) \<times> store option" where
  "seed_products db =
     (case db of
        None \<Rightarrow> (Inl (HTTPException 500 ''Database not configured''), db)
      | Some st \<Rightarrow>
          (case count_documents st ''product'' of
             Inl e \<Rightarrow> (Inl (HTTPException 500 e), db)
           | Inr count \<Rightarrow>
               (if count > 0
                then (Inr [(''seeded'', PBool False),
                           (''message'', PStr ''Products already exist'')], db)
                else (case insert_each st ''product'' docs of
                        (Inl e, st') \<Rightarrow> (Inl (HTTPException 500 e), Some st')
                      | (Inr _, st') \<Rightarrow>
                          (Inr [(''seeded'', PBool True),
                                (''count'', PInt (int (length docs)))], Some st')))))"

section \<open>Notions of the specification\<close>

text \<open>
  The text \<open>s\<close> occurs case-insensitively in the text \<open>t\<close>: after the case folding \<open>f\<close>
  of both, \<open>s\<close> is a contiguous part of \<open>t\<close>.
\<close>

definition ci_occurs :: "(string \<Rightarrow> string) \<Rightarrow> string \<Rightarrow> string \<Rightarrow> bool" where
  "ci_occurs f s t = sublist (f s) (f t)"

text \<open>The documents \<open>ds\<close> as stored one after the other, the first under the
  \<open>ObjectId\<close> made of \<open>n\<close>.\<close>

fun with_ids :: "nat \<Rightarrow> doc list \<Rightarrow> doc list" where
  "with_ids n [] = []"
| "with_ids n (d # ds) = ((''_id'', PObjectId n) # d) # with_ids (Suc n) ds"

section \<open>Example states\<close>

text \<open>An engine for the examples: it folds the case of the ASCII letters, and takes every
  pattern outside the interpreted part as invalid (the examples use none).\<close>

definition ascii_fold :: "string \<Rightarrow> string" where
  "ascii_fold s = map lower_char s"

definition no_other_patterns :: "string \<Rightarrow> string \<Rightarrow> string + (string \<Rightarrow> bool)" where
  "no_other_patterns pat opts = Inl ''Regular expression is invalid''"

text \<open>A store in reach that holds nothing yet, the same store out of reach, and an order
  as a client may send it.\<close>

definition empty_store :: store where
  "empty_store = \<lparr>name = Some ''dyfn'', colls = [], next_id = 0, outage = None,
       casefold = ascii_fold, other_patterns = no_other_patterns\<rparr>"

definition down_store :: store where
  "down_store =
     \<lparr>name = Some ''dyfn'', colls = [], next_id = 0, outage = Some ''connection refused'',
       casefold = ascii_fold, other_patterns = no_other_patterns\<rparr>"

definition example_order :: doc where
  "example_order = [(''customer'', PStr ''Ada''), (''product'', PStr ''Classic DYFN Tee'')]"

text \<open>Three products as the store holds them, and a store with these three.\<close>

definition demo_products :: "doc list" where
  "demo_products =
     [[(''_id'', PObjectId 0), (''title'', PStr ''Logo Tee''),
       (''description'', PStr ''Soft cotton''), (''price'', PFloat ''24.99''),
       (''category'', PStr ''tshirt''), (''image'', PStr ''tee.png''),
       (''in_stock'', PBool True), (''sizes'', PList [PStr ''S'', PStr ''M''])],
      [(''_id'', PObjectId 1), (''title'', PStr ''Zip Hoodie''),
       (''description'', PStr ''Warm, with logo''), (''price'', PFloat ''49.99''),
       (''category'', PStr ''hoodie''), (''image'', PStr ''zip.png''),
       (''in_stock'', PBool True), (''sizes'', PList [PStr ''M'', PStr ''L''])],
      [(''_id'', PObjectId 2), (''title'', PStr ''Plain Hoodie''),
       (''description'', PStr ''No LOGO here''), (''price'', PFloat ''39.99''),
       (''category'', PStr ''hoodie''), (''image'', PStr ''plain.png''),
       (''in_stock'', PBool False), (''sizes'', PList [PStr ''L''])]]"

definition demo_store :: store where
  "demo_store =
     \<lparr>name = Some ''dyfn'', colls = [(''product'', demo_products)], next_id = 3, outage = None,
       casefold = ascii_fold, other_patterns = no_other_patterns\<rparr>"

text \<open>A store with a title outside ASCII: the letter e with an acute accent is the two
  bytes C3 A9 of its UTF-8 encoding.\<close>

definition e_acute :: string where
  "e_acute = [CHR 0xC3, CHR 0xA9]"

definition cafe_products :: "doc list" where
  "cafe_products =
     [[(''_id'', PObjectId 0), (''title'', PStr (''Caf'' @ e_acute @ '' Tee'')),
       (''description'', PStr ''Soft cotton''), (''category'', PStr ''tshirt'')],
      [(''_id'', PObjectId 1), (''title'', PStr ''Zip Hoodie''),
       (''description'', PStr ''Warm''), (''category'', PStr ''hoodie'')]]"

definition cafe_store :: store where
  "cafe_store =
     \<lparr>name = Some ''dyfn'', colls = [(''product'', cafe_products)], next_id = 2, outage = None,
       casefold = ascii_fold, other_patterns = no_other_patterns\<rparr>"

text \<open>The store after the demonstration products were seeded into the empty store.\<close>

definition seeded_store :: store where
  "seeded_store =
     \<lparr>name = Some ''dyfn'', colls = [(''product'', with_ids 0 docs)], next_id = 4, outage = None,
       casefold = ascii_fold, other_patterns = no_other_patterns\<rparr>"

section \<open>The unconfigured store\<close>

text \<open>
  C6. When the store handle was never initialized (\<open>db\<close> is \<open>None\<close>), \<open>list_products\<close>
  and \<open>seed_products\<close> raise an \<open>HTTPException\<close> with status 500 and the fixed detail
  \<open>Database not configured\<close>, whatever their arguments. This is the exception of the
  handlers' first statement, not one of the adapter, which no call reaches; the handle
  after the call is still \<open>None\<close>.
\<close>

theorem unconfigured_store_fails:
  "list_products None category search limit =
     (Inl (HTTPException 500 ''Database not configured''), None)
   \<and> seed_products None = (Inl (HTTPException 500 ''Database not configured''), None)"
  by (simp add: list_products_def seed_products_def)

theorem unconfigured_store_fails_witness:
  "list_products None (Some ''hoodie'') (Some ''tee'') (Some 2) =
     (Inl (HTTPException 500 ''Database not configured''), None)
   \<and> seed_products None = (Inl (HTTPException 500 ''Database not configured''), None)"
  by (rule unconfigured_store_fails)

section \<open>Empty parameters\<close>

lemma product_query_empty_category:
  "product_query (Some []) search = product_query None search"
  by (simp add: product_query_def truthy_def)

lemma product_query_empty_search:
  "product_query category (Some []) = product_query category None"
  by (simp add: product_query_def truthy_def)

text \<open>
  C9. For every store state and limit, \<open>list_products\<close> with the empty text as category
  builds the filter it builds with no category, and so for the empty search text: the two
  calls have the same filter and the same outcome.
\<close>

theorem empty_parameters_as_absent:
  "product_query (Some []) search = product_query None search
   \<and> product_query category (Some []) = product_query category None
   \<and> list_products db (Some []) search limit = list_products db None search limit
   \<and> list_products db category (Some []) limit = list_products db category None limit"
  by (cases db)
    (simp_all add: list_products_def product_query_empty_category product_query_empty_search)

theorem empty_parameters_as_absent_witness:
  "product_query (Some []) (Some ''logo'') = product_query None (Some ''logo'')
   \<and> product_query (Some ''hoodie'') (Some []) = product_query (Some ''hoodie'') None
   \<and> list_products (Some demo_store) (Some []) (Some ''logo'') (Some 2) =
       list_products (Some demo_store) None (Some ''logo'') (Some 2)
   \<and> list_products (Some demo_store) (Some ''hoodie'') (Some []) (Some 2) =
       list_products (Some demo_store) (Some ''hoodie'') None (Some 2)"
  by (rule empty_parameters_as_absent)

section \<open>Facts about the store\<close>

lemma docs_of_colls_update:
  "docs_of (st\<lparr>colls := AList.update c ds (colls st)\<rparr>) c' =
     (if c' = c then ds else docs_of st c')"
  by (simp add: docs_of_def update_conv')

lemma docs_of_next_id [simp]: "docs_of (st\<lparr>next_id := n\<rparr>) c = docs_of st c"
  by (simp add: docs_of_def)

lemma insert_one_outage: "outage st = Some m \<Longrightarrow> insert_one st c d = (Inl m, st)"
  by (simp add: insert_one_def)

lemma insert_one_fresh:
  "outage st = None \<Longrightarrow> map_of d ''_id'' = None \<Longrightarrow>
   insert_one st c d =
     (Inr (PObjectId (next_id st)),
      st\<lparr>colls := AList.update c (docs_of st c @ [(''_id'', PObjectId (next_id st)) # d])
               (colls st),
         next_id := Suc (next_id st)\<rparr>)"
  by (simp add: insert_one_def)

section \<open>Creating products and orders\<close>

text \<open>
  C5. \<open>create_product\<close> returns the object \<open>{id}\<close> and \<open>create_order\<close> the object
  \<open>{id, status: "received"}\<close>, with the identifier \<open>create_document\<close> returned; an
  exception of \<open>create_document\<close> becomes an \<open>HTTPException\<close> with status 500 whose
  detail is the text of that exception; there is no third outcome. With the store out of
  reach, the detail is the text of the store's exception and the store is as before;
  with the store in reach, the identifier is the text of the \<open>ObjectId\<close> the store
  assigned, and the record is the last document of its collection.
\<close>

theorem create_outcomes:
  "((\<exists>i db'. create_document db ''product'' product = (Inr i, db')
        \<and> create_product db product = (Inr [(''id'', PStr i)], db'))
    \<or> (\<exists>m db'. create_document db ''product'' product = (Inl m, db')
        \<and> create_product db product = (Inl (HTTPException 500 m), db')))
   \<and> ((\<exists>i db'. create_document db ''order'' order = (Inr i, db')
        \<and> create_order db order = (Inr [(''id'', PStr i), (''status'', PStr ''received'')], db'))
    \<or> (\<exists>m db'. create_document db ''order'' order = (Inl m, db')
        \<and> create_order db order = (Inl (HTTPException 500 m), db')))
   \<and> (\<forall>st m. db = Some st \<and> outage st = Some m \<longrightarrow>
         create_product db product = (Inl (HTTPException 500 m), db)
         \<and> create_order db order = (Inl (HTTPException 500 m), db))
   \<and> (\<forall>st. db = Some st \<and> outage st = None \<and> map_of product ''_id'' = None \<longrightarrow>
         (\<exists>st'. create_product db product =
                  (Inr [(''id'', PStr (hex24 (next_id st)))], Some st')
            \<and> docs_of st' ''product'' =
                  docs_of st ''product'' @ [(''_id'', PObjectId (next_id st)) # product]))
   \<and> (\<forall>st. db = Some st \<and> outage st = None \<and> map_of order ''_id'' = None \<longrightarrow>
         (\<exists>st'. create_order db order =
                  (Inr [(''id'', PStr (hex24 (next_id st))), (''status'', PStr ''received'')],
                   Some st')
            \<and> docs_of st' ''order'' =
                  docs_of st ''order'' @ [(''_id'', PObjectId (next_id st)) # order]))"
proof (intro conjI allI impI)
  show "(\<exists>i db'. create_document db ''product'' product = (Inr i, db')
        \<and> create_product db product = (Inr [(''id'', PStr i)], db'))
    \<or> (\<exists>m db'. create_document db ''product'' product = (Inl m, db')
        \<and> create_product db product = (Inl (HTTPException 500 m), db'))"
    by (cases "create_document db ''product'' product" rule: prod.exhaust;
        cases "fst (create_document db ''product'' product)")
       (auto simp: create_product_def)
  show "(\<exists>i db'. create_document db ''order'' order = (Inr i, db')
        \<and> create_order db order = (Inr [(''id'', PStr i), (''status'', PStr ''received'')], db'))
    \<or> (\<exists>m db'. create_document db ''order'' order = (Inl m, db')
        \<and> create_order db order = (Inl (HTTPException 500 m), db'))"
    by (cases "create_document db ''order'' order" rule: prod.exhaust;
        cases "fst (create_document db ''order'' order)")
       (auto simp: create_order_def)
next
  fix st m assume "db = Some st \<and> outage st = Some m"
  then show "create_product db product = (Inl (HTTPException 500 m), db)"
    and "create_order db order = (Inl (HTTPException 500 m), db)"
    by (simp_all add: create_product_def create_order_def create_document_def
          insert_one_outage)
next
  fix st assume "db = Some st \<and> outage st = None \<and> map_of product ''_id'' = None"
  then show "\<exists>st'. create_product db product =
                  (Inr [(''id'', PStr (hex24 (next_id st)))], Some st')
            \<and> docs_of st' ''product'' =
                  docs_of st ''product'' @ [(''_id'', PObjectId (next_id st)) # product]"
    by (simp add: create_product_def create_document_def insert_one_fresh
          docs_of_colls_update)
next
  fix st assume "db = Some st \<and> outage st = None \<and> map_of order ''_id'' = None"
  then show "\<exists>st'. create_order db order =
                  (Inr [(''id'', PStr (hex24 (next_id st))), (''status'', PStr ''received'')],
                   Some st')
            \<and> docs_of st' ''order'' =
                  docs_of st ''order'' @ [(''_id'', PObjectId (next_id st)) # order]"
    by (simp add: create_order_def create_document_def insert_one_fresh
          docs_of_colls_update)
qed

theorem create_outcomes_witness:
  "create_product (Some down_store) (hd docs) =
     (Inl (HTTPException 500 ''connection refused''), Some down_store)
   \<and> create_order (Some down_store) example_order =
     (Inl (HTTPException 500 ''connection refused''), Some down_store)
   \<and> (\<exists>st'. create_product (Some empty_store) (hd docs) =
              (Inr [(''id'', PStr (hex24 0))], Some st')
        \<and> docs_of st' ''product'' = [(''_id'', PObjectId 0) # hd docs])
   \<and> (\<exists>st'. create_order (Some empty_store) example_order =
              (Inr [(''id'', PStr (hex24 0)), (''status'', PStr ''received'')], Some st')
        \<and> docs_of st' ''order'' = [(''_id'', PObjectId 0) # example_order])"
  using create_outcomes [of "Some down_store" "hd docs" example_order]
    create_outcomes [of "Some empty_store" "hd docs" example_order]
  by (simp add: down_store_def empty_store_def example_order_def docs_def docs_of_def)

section \<open>The diagnostic endpoint\<close>

text \<open>
  C7. For every state of the store and every environment, \<open>test_database\<close> returns a
  response and does not raise, and the handle after the call is the handle before it.
  The \<open>collections\<close> field holds at most 10 names. With no handle, the \<open>database\<close>
  field reads \<open>Available but not initialized\<close>; with a handle whose listing of the
  collections raises, it reads \<open>Connected but Error:\<close> and the first 50 characters of the
  exception's text; with a store in reach it reads \<open>Connected & Working\<close> and
  \<open>collections\<close> holds the first 10 names of the store's collections.
\<close>

theorem diagnostic_never_raises:
  "\<exists>r. test_database db env = (Inr r, db)
     \<and> length (collections r) \<le> 10
     \<and> (case db of
          None \<Rightarrow> database r = warning_sign @ ''  Available but not initialized''
                    \<and> collections r = []
        | Some st \<Rightarrow>
            (case outage st of
               Some m \<Rightarrow> database r = warning_sign @ ''  Connected but Error: '' @ take_chars 50 m
                          \<and> collections r = []
             | None \<Rightarrow> database r = check_mark @ '' Connected & Working''
                        \<and> collections r = take 10 (map fst (colls st))))"
  by (simp add: test_database_def list_collection_names_def Let_def
        split: option.split)

theorem diagnostic_never_raises_witness:
  "(\<exists>r. test_database None (map_of []) = (Inr r, None)
      \<and> database r = warning_sign @ ''  Available but not initialized'' \<and> collections r = [])
   \<and> (\<exists>r. test_database (Some down_store) (map_of []) = (Inr r, Some down_store)
      \<and> database r = warning_sign @ ''  Connected but Error: connection refused''
      \<and> collections r = [])
   \<and> (\<exists>r. test_database (Some empty_store) (map_of []) = (Inr r, Some empty_store)
      \<and> database r = check_mark @ '' Connected & Working'' \<and> collections r = [])"
  using diagnostic_never_raises [of None "map_of []"]
    diagnostic_never_raises [of "Some down_store" "map_of []"]
    diagnostic_never_raises [of "Some empty_store" "map_of []"]
  by (auto simp: down_store_def empty_store_def continuation_def)

text \<open>
  C10, as the specification states it, has the two fields depend only on whether the
  variables are set. A variable set to the empty text is set, and the field then reads
  \<open>Not Set\<close>, while the same variable set to \<open>x\<close> gives \<open>Set\<close>: \<^verbatim>\<open>os.getenv\<close> returns
  the empty text, which is false in the handler's test.
\<close>

theorem empty_variable_reads_not_set:
  "map_of [(''DATABASE_URL'', [])] ''DATABASE_URL'' = Some []
   \<and> database_url (projr (fst (test_database None (map_of [(''DATABASE_URL'', [])]))))
       = Some (cross_mark @ '' Not Set'')
   \<and> database_url (projr (fst (test_database None (map_of [(''DATABASE_URL'', ''x'')]))))
       = Some (check_mark @ '' Set'')"
  by (simp add: test_database_def truthy_def)

text \<open>
  C10, amended. For every state of the store, the final \<open>database_url\<close> and
  \<open>database_name\<close> fields of the response depend only on whether the variables
  \<open>DATABASE_URL\<close> and \<open>DATABASE_NAME\<close> are set to a text that is not empty (\<open>Set\<close>) or
  not (\<open>Not Set\<close>); what the handler wrote to the two fields from the connection before
  is overwritten.
\<close>

theorem diagnostic_env_fields:
  "\<exists>r. test_database db env = (Inr r, db)
     \<and> database_url r =
         Some (if truthy (env ''DATABASE_URL'') then check_mark @ '' Set''
               else cross_mark @ '' Not Set'')
     \<and> database_name r =
         Some (if truthy (env ''DATABASE_NAME'') then check_mark @ '' Set''
               else cross_mark @ '' Not Set'')"
  by (simp add: test_database_def list_collection_names_def Let_def
        split: option.split sum.split)

theorem diagnostic_env_fields_witness:
  "\<exists>r. test_database (Some empty_store)
          (map_of [(''DATABASE_URL'', ''mongodb://localhost''), (''DATABASE_NAME'', [])])
        = (Inr r, Some empty_store)
     \<and> database_url r = Some (check_mark @ '' Set'')
     \<and> database_name r = Some (cross_mark @ '' Not Set'')"
  using diagnostic_env_fields [of "Some empty_store"
      "map_of [(''DATABASE_URL'', ''mongodb://localhost''), (''DATABASE_NAME'', [])]"]
  by (simp add: truthy_def)

section \<open>Seeding\<close>

lemma insert_each_fresh:
  "outage st = None \<Longrightarrow> list_all (\<lambda>d. map_of d ''_id'' = None) ds \<Longrightarrow>
   \<exists>st'. insert_each st c ds = (Inr (), st')
     \<and> docs_of st' c = docs_of st c @ with_ids (next_id st) ds
     \<and> (\<forall>c'. c' \<noteq> c \<longrightarrow> docs_of st' c' = docs_of st c')
     \<and> outage st' = None \<and> next_id st' = next_id st + length ds \<and> name st' = name st"
proof (induction ds arbitrary: st)
  case Nil
  then show ?case by simp
next
  case (Cons d ds)
  let ?st1 = "st\<lparr>colls := AList.update c (docs_of st c @ [(''_id'', PObjectId (next_id st)) # d])
               (colls st), next_id := Suc (next_id st)\<rparr>"
  from Cons.prems have step: "insert_one st c d = (Inr (PObjectId (next_id st)), ?st1)"
    by (simp add: insert_one_fresh)
  have "outage ?st1 = None" using Cons.prems by simp
  moreover have "list_all (\<lambda>d. map_of d ''_id'' = None) ds" using Cons.prems by simp
  ultimately obtain st' where st':
    "insert_each ?st1 c ds = (Inr (), st')"
    "docs_of st' c = docs_of ?st1 c @ with_ids (next_id ?st1) ds"
    "\<forall>c'. c' \<noteq> c \<longrightarrow> docs_of st' c' = docs_of ?st1 c'"
    "outage st' = None" "next_id st' = next_id ?st1 + length ds" "name st' = name ?st1"
    using Cons.IH [of ?st1] by blast
  have "insert_each st c (d # ds) = (Inr (), st')"
    using step st'(1) by simp
  moreover have "docs_of st' c = docs_of st c @ with_ids (next_id st) (d # ds)"
    using st'(2) by (simp add: docs_of_colls_update)
  moreover have "\<forall>c'. c' \<noteq> c \<longrightarrow> docs_of st' c' = docs_of st c'"
    using st'(3) by (simp add: docs_of_colls_update)
  ultimately show ?case using st'(4,5,6) by simp
qed

lemma docs_without_id: "list_all (\<lambda>d. map_of d ''_id'' = None) docs"
  by (simp add: docs_def)

lemma docs_categories:
  "map (\<lambda>d. map_of d ''category'') (with_ids n docs) =
     [Some (PStr ''tshirt''), Some (PStr ''tshirt''), Some (PStr ''hoodie''), Some (PStr ''hoodie'')]"
  by (simp add: docs_def)

lemma length_docs: "length docs = 4"
  by (simp add: docs_def)

lemma length_with_ids [simp]: "length (with_ids n ds) = length ds"
  by (induction ds arbitrary: n) simp_all

lemma seed_products_nonempty:
  "outage st = None \<Longrightarrow> docs_of st ''product'' \<noteq> [] \<Longrightarrow>
   seed_products (Some st) =
     (Inr [(''seeded'', PBool False), (''message'', PStr ''Products already exist'')], Some st)"
  by (simp add: seed_products_def count_documents_def)

text \<open>
  C1. With the store in reach: when the product collection is empty, \<open>seed_products\<close>
  stores the four documents of \<open>docs\<close> (two of category \<open>tshirt\<close>, two of category
  \<open>hoodie\<close>) and nothing else, and returns \<open>seeded\<close> true with \<open>count\<close> 4; a second
  call then stores nothing and returns \<open>seeded\<close> false. When the product collection holds
  a document, \<open>seed_products\<close> returns \<open>seeded\<close> false and the store is as before.
\<close>

theorem seed_products_guard:
  assumes "outage st = None"
  shows "(docs_of st ''product'' = [] \<longrightarrow>
           (\<exists>st'. seed_products (Some st) =
                    (Inr [(''seeded'', PBool True), (''count'', PInt 4)], Some st')
              \<and> docs_of st' ''product'' = with_ids (next_id st) docs
              \<and> length (docs_of st' ''product'') = 4
              \<and> map (\<lambda>d. map_of d ''category'') (docs_of st' ''product'') =
                  [Some (PStr ''tshirt''), Some (PStr ''tshirt''),
                   Some (PStr ''hoodie''), Some (PStr ''hoodie'')]
              \<and> (\<forall>c. c \<noteq> ''product'' \<longrightarrow> docs_of st' c = docs_of st c)
              \<and> seed_products (Some st') =
                  (Inr [(''seeded'', PBool False), (''message'', PStr ''Products already exist'')],
                   Some st')))
       \<and> (docs_of st ''product'' \<noteq> [] \<longrightarrow>
           seed_products (Some st) =
             (Inr [(''seeded'', PBool False), (''message'', PStr ''Products already exist'')],
              Some st))"
proof (intro conjI impI)
  assume empty: "docs_of st ''product'' = []"
  obtain st' where st':
    "insert_each st ''product'' docs = (Inr (), st')"
    "docs_of st' ''product'' = docs_of st ''product'' @ with_ids (next_id st) docs"
    "\<forall>c'. c' \<noteq> ''product'' \<longrightarrow> docs_of st' c' = docs_of st c'"
    "outage st' = None"
    using insert_each_fresh [OF assms docs_without_id, of "''product''"] by blast
  have stored: "docs_of st' ''product'' = with_ids (next_id st) docs"
    using st'(2) empty by simp
  have first: "seed_products (Some st) =
      (Inr [(''seeded'', PBool True), (''count'', PInt 4)], Some st')"
    using assms empty st'(1) by (simp add: seed_products_def count_documents_def length_docs)
  have "docs_of st' ''product'' \<noteq> []"
    using stored by (simp add: docs_def)
  then have second: "seed_products (Some st') =
      (Inr [(''seeded'', PBool False), (''message'', PStr ''Products already exist'')], Some st')"
    using st'(4) by (rule seed_products_nonempty [rotated])
  show "\<exists>st'. seed_products (Some st) =
                    (Inr [(''seeded'', PBool True), (''count'', PInt 4)], Some st')
              \<and> docs_of st' ''product'' = with_ids (next_id st) docs
              \<and> length (docs_of st' ''product'') = 4
              \<and> map (\<lambda>d. map_of d ''category'') (docs_of st' ''product'') =
                  [Some (PStr ''tshirt''), Some (PStr ''tshirt''),
                   Some (PStr ''hoodie''), Some (PStr ''hoodie'')]
              \<and> (\<forall>c. c \<noteq> ''product'' \<longrightarrow> docs_of st' c = docs_of st c)
              \<and> seed_products (Some st') =
                  (Inr [(''seeded'', PBool False), (''message'', PStr ''Products already exist'')],
                   Some st')"
    using first stored second st'(3) by (auto simp: docs_categories length_docs)
next
  assume "docs_of st ''product'' \<noteq> []"
  with assms show "seed_products (Some st) =
             (Inr [(''seeded'', PBool False), (''message'', PStr ''Products already exist'')],
              Some st)"
    by (rule seed_products_nonempty)
qed

lemma seed_products_empty_store:
  "seed_products (Some empty_store) =
     (Inr [(''seeded'', PBool True), (''count'', PInt 4)], Some seeded_store)"
  by (simp add: seed_products_def count_documents_def insert_one_def docs_of_def
      empty_store_def seeded_store_def docs_def)

theorem seed_products_guard_witness:
  "(\<exists>st'. seed_products (Some empty_store) =
            (Inr [(''seeded'', PBool True), (''count'', PInt 4)], Some st')
      \<and> docs_of st' ''product'' = with_ids 0 docs
      \<and> seed_products (Some st') =
          (Inr [(''seeded'', PBool False), (''message'', PStr ''Products already exist'')],
           Some st'))
   \<and> seed_products (Some seeded_store) =
       (Inr [(''seeded'', PBool False), (''message'', PStr ''Products already exist'')],
        Some seeded_store)"
  using seed_products_guard [of empty_store] seed_products_guard [of seeded_store]
  by (auto simp: empty_store_def seeded_store_def docs_of_def docs_def)

section \<open>The identifier of a listed record\<close>

lemma rename_id_without: "map_of p ''_id'' = None \<Longrightarrow> rename_id p = p"
  by (simp add: rename_id_def)

lemma rename_id_with:
  assumes "map_of p ''_id'' = Some v"
  shows "map_of (rename_id p) ''_id'' = None"
    and "map_of (rename_id p) ''id'' = Some (PStr (py_str v))"
    and "k \<noteq> ''_id'' \<Longrightarrow> k \<noteq> ''id'' \<Longrightarrow> map_of (rename_id p) k = map_of p k"
  using assms by (simp_all add: rename_id_def update_conv' delete_conv')

lemma rename_id_keeps:
  "k \<noteq> ''_id'' \<Longrightarrow> k \<noteq> ''id'' \<Longrightarrow> map_of (rename_id p) k = map_of p k"
  by (cases "map_of p ''_id''") (simp_all add: rename_id_with rename_id_without)

text \<open>
  C4. When \<open>list_products\<close> returns records, they are, one for one and in order, the
  documents \<open>get_documents\<close> returned. A document that carried the identifier field
  \<open>_id\<close> has lost that field and has in the field \<open>id\<close> the text of the identifier;
  every field other than these two is as it was. A document without \<open>_id\<close> is returned
  as it is.
\<close>

theorem listed_records_carry_text_id:
  assumes "list_products db category search limit = (Inr rs, db')"
  shows "\<exists>ps. get_documents db ''product'' (product_query category search)
                (case limit of None \<Rightarrow> 100 | Some l \<Rightarrow> l) = Inr ps
           \<and> list_all2
               (\<lambda>p r. case map_of p ''_id'' of
                         Some v \<Rightarrow>
                           map_of r ''_id'' = None
                           \<and> map_of r ''id'' = Some (PStr (py_str v))
                           \<and> (\<forall>k. k \<noteq> ''_id'' \<and> k \<noteq> ''id'' \<longrightarrow> map_of r k = map_of p k)
                       | None \<Rightarrow> r = p)
               ps rs"
proof -
  from assms obtain st where db: "db = Some st"
    by (cases db) (simp_all add: list_products_def)
  from assms db obtain ps where
    ps: "get_documents db ''product'' (product_query category search)
           (case limit of None \<Rightarrow> 100 | Some l \<Rightarrow> l) = Inr ps"
    and rs: "rs = map rename_id ps"
    by (auto simp: list_products_def split: sum.splits)
  have "list_all2
          (\<lambda>p r. case map_of p ''_id'' of
                    Some v \<Rightarrow>
                      map_of r ''_id'' = None
                      \<and> map_of r ''id'' = Some (PStr (py_str v))
                      \<and> (\<forall>k. k \<noteq> ''_id'' \<and> k \<noteq> ''id'' \<longrightarrow> map_of r k = map_of p k)
                  | None \<Rightarrow> r = p)
          ps (map rename_id ps)"
    by (simp add: list_all2_map2 list_all2_same rename_id_with rename_id_without
          split: option.split)
  with ps rs show ?thesis by blast
qed

lemma hoodie_found:
  "get_documents (Some seeded_store) ''product'' (product_query (Some ''hoodie'') None) 1 =
     Inr [(''_id'', PObjectId 2) # docs ! 2]"
  by (simp add: get_documents_def find_documents_def query_error_def seeded_store_def
      docs_of_def product_query_def truthy_def matches_def docs_def sizes_S_to_XL_def
      numeral_2_eq_2)

lemma hoodie_listed:
  "list_products (Some seeded_store) (Some ''hoodie'') None (Some 1) =
     (Inr [docs ! 2 @ [(''id'', PStr ''000000000000000000000002'')]], Some seeded_store)"
  by (simp add: list_products_def hoodie_found rename_id_def docs_def hex24_def digit_char_def)

theorem listed_records_carry_text_id_witness:
  "list_products (Some seeded_store) (Some ''hoodie'') None (Some 1) =
     (Inr [docs ! 2 @ [(''id'', PStr ''000000000000000000000002'')]], Some seeded_store)
   \<and> get_documents (Some seeded_store) ''product'' (product_query (Some ''hoodie'') None) 1 =
     Inr [(''_id'', PObjectId 2) # docs ! 2]
   \<and> map_of (docs ! 2 @ [(''id'', PStr ''000000000000000000000002'')]) ''_id'' = None
   \<and> map_of (docs ! 2 @ [(''id'', PStr ''000000000000000000000002'')]) ''id''
       = Some (PStr (py_str (PObjectId 2)))
   \<and> map_of (docs ! 2 @ [(''id'', PStr ''000000000000000000000002'')]) ''title''
       = map_of ((''_id'', PObjectId 2) # docs ! 2) ''title''"
  using listed_records_carry_text_id [OF hoodie_listed] hoodie_found hoodie_listed
  by simp

section \<open>The filter of the product listing\<close>

lemma product_query_cases:
  assumes "c \<noteq> []" "s \<noteq> []"
  shows "product_query (Some c) (Some s) =
           [Field ''category'' (Equals c),
            Or [[(''title'', Regex s ''i'')], [(''description'', Regex s ''i'')]]]"
    and "product_query (Some c) None = [Field ''category'' (Equals c)]"
    and "product_query None (Some s) =
           [Or [[(''title'', Regex s ''i'')], [(''description'', Regex s ''i'')]]]"
    and "product_query None None = []"
  using assms by (simp_all add: product_query_def truthy_def)

lemma list_products_returns:
  assumes "list_products (Some st) category search limit = (Inr rs, db')"
  shows "\<exists>ps. rs = map rename_id ps
           \<and> ps = take (nat (case limit of None \<Rightarrow> 100 | Some l \<Rightarrow> l))
                    (filter (matches st (product_query category search))
                       (docs_of st ''product''))
           \<and> query_error st (product_query category search) = None
           \<and> outage st = None \<and> db' = Some st"
  using assms
  by (auto simp: list_products_def get_documents_def find_documents_def
        split: option.splits sum.splits)

lemmas demo_eval =
  list_products_def get_documents_def find_documents_def query_error_def demo_store_def
  demo_products_def docs_of_def product_query_def truthy_def matches_def match_sub_def
  regex_compile_def interpreted_def regex_special_def interpreted_search_def ascii_fold_def
  lower_char_def continuation_def

lemma demo_hoodies_with_logo:
  "list_products (Some demo_store) (Some ''hoodie'') (Some ''logo'') None =
     (Inr (map rename_id (tl demo_products)), Some demo_store)"
  by (simp add: demo_eval)

lemma demo_capital_category:
  "list_products (Some demo_store) (Some ''Hoodie'') (Some ''logo'') None =
     (Inr [], Some demo_store)"
  by (simp add: demo_eval)

lemma demo_dot_search:
  "list_products (Some demo_store) None (Some ''l.go'') None =
     (Inr (map rename_id demo_products), Some demo_store)"
  by (simp add: demo_eval)

lemma demo_logo_search:
  "list_products (Some demo_store) None (Some ''logo'') None =
     (Inr (map rename_id demo_products), Some demo_store)"
  by (simp add: demo_eval)

lemma demo_logo_found:
  "find_documents demo_store ''product'' (product_query None (Some ''logo'')) = Inr demo_products"
  by (simp add: demo_eval)

lemma dot_not_in_titles:
  "\<not> ci_occurs ascii_fold ''l.go'' ''Logo Tee'' \<and> \<not> ci_occurs ascii_fold ''l.go'' ''Soft cotton''"
  by (simp add: ci_occurs_def ascii_fold_def lower_char_def sublist_code prefix_code)


text \<open>
  C3. When a category and a search text are both given (neither empty), the filter of
  \<open>list_products\<close> has two entries, the category with the text to equal and \<open>$or\<close>
  with the regular expression on the title and the one on the description. A document
  satisfies the filter exactly when it satisfies the category condition and one of the
  two search conditions. On a category that is a text, the category condition is
  equality of the two texts, letter case included. The records \<open>list_products\<close> returns
  come from documents of the product collection that satisfy both.
\<close>

theorem filter_is_conjunctive:
  assumes "category \<noteq> []" and "search \<noteq> []"
  shows "product_query (Some category) (Some search) =
           [Field ''category'' (Equals category),
            Or [[(''title'', Regex search ''i'')], [(''description'', Regex search ''i'')]]]
       \<and> (\<forall>st d. matches st (product_query (Some category) (Some search)) d \<longleftrightarrow>
              match_cond st (Equals category) (map_of d ''category'')
              \<and> (match_cond st (Regex search ''i'') (map_of d ''title'')
                 \<or> match_cond st (Regex search ''i'') (map_of d ''description'')))
       \<and> (\<forall>st v. match_cond st (Equals category) (Some (PStr v)) \<longleftrightarrow> v = category)
       \<and> (\<forall>st limit rs db'.
             list_products (Some st) (Some category) (Some search) limit = (Inr rs, db')
             \<longrightarrow> (\<exists>ps. rs = map rename_id ps
                    \<and> list_all
                        (\<lambda>p. p \<in> set (docs_of st ''product'')
                             \<and> match_cond st (Equals category) (map_of p ''category'')
                             \<and> (match_cond st (Regex search ''i'') (map_of p ''title'')
                                \<or> match_cond st (Regex search ''i'') (map_of p ''description'')))
                        ps))"
proof (intro conjI allI impI)
  show q: "product_query (Some category) (Some search) =
           [Field ''category'' (Equals category),
            Or [[(''title'', Regex search ''i'')], [(''description'', Regex search ''i'')]]]"
    using assms by (rule product_query_cases)
  show sem: "matches st (product_query (Some category) (Some search)) d \<longleftrightarrow>
              match_cond st (Equals category) (map_of d ''category'')
              \<and> (match_cond st (Regex search ''i'') (map_of d ''title'')
                 \<or> match_cond st (Regex search ''i'') (map_of d ''description''))" for st d
    unfolding q by (simp add: matches_def match_sub_def)
  show "match_cond st (Equals category) (Some (PStr v)) \<longleftrightarrow> v = category" for st v
    by auto
  fix st limit rs db'
  assume "list_products (Some st) (Some category) (Some search) limit = (Inr rs, db')"
  then obtain ps where ps: "rs = map rename_id ps"
    "ps = take (nat (case limit of None \<Rightarrow> 100 | Some l \<Rightarrow> l))
            (filter (matches st (product_query (Some category) (Some search)))
               (docs_of st ''product''))"
    using list_products_returns by blast
  have "\<forall>p\<in>set ps. p \<in> set (docs_of st ''product'')
          \<and> matches st (product_query (Some category) (Some search)) p"
    unfolding ps(2) by (auto dest: in_set_takeD)
  then have "list_all
               (\<lambda>p. p \<in> set (docs_of st ''product'')
                    \<and> match_cond st (Equals category) (map_of p ''category'')
                    \<and> (match_cond st (Regex search ''i'') (map_of p ''title'')
                       \<or> match_cond st (Regex search ''i'') (map_of p ''description'')))
               ps"
    unfolding list_all_iff sem by blast
  with ps(1) show "\<exists>ps. rs = map rename_id ps
                    \<and> list_all
                        (\<lambda>p. p \<in> set (docs_of st ''product'')
                             \<and> match_cond st (Equals category) (map_of p ''category'')
                             \<and> (match_cond st (Regex search ''i'') (map_of p ''title'')
                                \<or> match_cond st (Regex search ''i'') (map_of p ''description'')))
                        ps"
    by blast
qed

theorem filter_is_conjunctive_witness:
  "product_query (Some ''hoodie'') (Some ''logo'') =
     [Field ''category'' (Equals ''hoodie''),
      Or [[(''title'', Regex ''logo'' ''i'')], [(''description'', Regex ''logo'' ''i'')]]]
   \<and> list_products (Some demo_store) (Some ''hoodie'') (Some ''logo'') None =
       (Inr (map rename_id (tl demo_products)), Some demo_store)
   \<and> (\<exists>ps. map rename_id (tl demo_products) = map rename_id ps
         \<and> list_all
             (\<lambda>p. p \<in> set (docs_of demo_store ''product'')
                  \<and> match_cond demo_store (Equals ''hoodie'') (map_of p ''category'')
                  \<and> (match_cond demo_store (Regex ''logo'' ''i'') (map_of p ''title'')
                     \<or> match_cond demo_store (Regex ''logo'' ''i'') (map_of p ''description'')))
             ps)
   \<and> \<not> match_cond demo_store (Equals ''hoodie'') (Some (PStr ''Hoodie''))
   \<and> list_products (Some demo_store) (Some ''Hoodie'') (Some ''logo'') None =
       (Inr [], Some demo_store)"
proof -
  have ne: "''hoodie'' \<noteq> []" "''logo'' \<noteq> []" by simp_all
  note inst = filter_is_conjunctive [OF ne]
  note q = inst [THEN conjunct1]
  note exact = inst [THEN conjunct2, THEN conjunct2, THEN conjunct1, THEN spec, THEN spec,
      of demo_store "''Hoodie''"]
  note listed = inst [THEN conjunct2, THEN conjunct2, THEN conjunct2, rule_format,
      OF demo_hoodies_with_logo]
  from exact have exact': "\<not> match_cond demo_store (Equals ''hoodie'') (Some (PStr ''Hoodie''))"
    by simp
  show ?thesis
    by (intro conjI q listed exact' demo_hoodies_with_logo demo_capital_category)
qed

section \<open>The limit of the product listing\<close>

lemma list_products_found:
  assumes "find_documents st ''product'' (product_query category search) = Inr ms"
  shows "get_documents (Some st) ''product'' (product_query category search) l =
           Inr (take (nat l) ms)"
    and "list_products (Some st) category search limit =
           (Inr (map rename_id (take (nat (case limit of None \<Rightarrow> 100 | Some l \<Rightarrow> l)) ms)),
            Some st)"
    and "ms = filter (matches st (product_query category search)) (docs_of st ''product'')"
  using assms
  by (auto simp: list_products_def get_documents_def find_documents_def
        split: option.splits)

lemma list_products_refused:
  assumes "find_documents st ''product'' (product_query category search) = Inl e"
  shows "list_products (Some st) category search limit = (Inl (Exception e), Some st)"
  using assms by (simp add: list_products_def get_documents_def)

text \<open>
  C8. For every limit \<open>l\<close>, \<open>list_products\<close> hands \<open>l\<close> to \<open>get_documents\<close> as it is (its
  outcome is the outcome of \<open>get_documents\<close> with the limit \<open>l\<close>, the records renamed), and
  with no limit given it hands 100. When the store answers the filter with the matching
  documents \<open>ms\<close>, \<open>list_products\<close> returns the first \<open>l\<close> of them, all of them if there are
  fewer, however large \<open>l\<close> is, and none for a limit below 1; with limit 2 and at least 2
  matching documents it returns exactly 2 records. When the store raises, so does
  \<open>list_products\<close>, whatever the limit.
\<close>

theorem limit_is_passed_through:
  "list_products (Some st) category search (Some l) =
     (case get_documents (Some st) ''product'' (product_query category search) l of
        Inl m \<Rightarrow> (Inl (Exception m), Some st)
      | Inr ps \<Rightarrow> (Inr (map rename_id ps), Some st))
   \<and> (\<forall>ms. find_documents st ''product'' (product_query category search) = Inr ms \<longrightarrow>
        ms = filter (matches st (product_query category search)) (docs_of st ''product'')
        \<and> get_documents (Some st) ''product'' (product_query category search) l =
            Inr (take (nat l) ms)
        \<and> list_products (Some st) category search (Some l) =
            (Inr (map rename_id (take (nat l) ms)), Some st)
        \<and> length (map rename_id (take (nat l) ms)) = min (nat l) (length ms)
        \<and> (l = 2 \<and> 2 \<le> length ms \<longrightarrow>
             (\<exists>rs. list_products (Some st) category search (Some l) = (Inr rs, Some st)
                \<and> length rs = 2)))
   \<and> (\<forall>e. find_documents st ''product'' (product_query category search) = Inl e \<longrightarrow>
        list_products (Some st) category search (Some l) = (Inl (Exception e), Some st))
   \<and> list_products db category search None = list_products db category search (Some 100)"
proof (intro conjI allI impI)
  show "list_products (Some st) category search (Some l) =
     (case get_documents (Some st) ''product'' (product_query category search) l of
        Inl m \<Rightarrow> (Inl (Exception m), Some st)
      | Inr ps \<Rightarrow> (Inr (map rename_id ps), Some st))"
    by (simp add: list_products_def)
next
  fix ms
  assume found: "find_documents st ''product'' (product_query category search) = Inr ms"
  show "ms = filter (matches st (product_query category search)) (docs_of st ''product'')"
    using found by (rule list_products_found(3))
  show "get_documents (Some st) ''product'' (product_query category search) l =
      Inr (take (nat l) ms)"
    using found by (rule list_products_found(1))
  show listed: "list_products (Some st) category search (Some l) =
      (Inr (map rename_id (take (nat l) ms)), Some st)"
    using list_products_found(2) [OF found, of "Some l"] by simp
  show "length (map rename_id (take (nat l) ms)) = min (nat l) (length ms)"
    by (simp add: min_def)
  assume "l = 2 \<and> 2 \<le> length ms"
  then have "length (map rename_id (take (nat l) ms)) = 2"
    by simp
  with listed show "\<exists>rs. list_products (Some st) category search (Some l) = (Inr rs, Some st)
      \<and> length rs = 2"
    by blast
next
  fix e
  assume "find_documents st ''product'' (product_query category search) = Inl e"
  then show "list_products (Some st) category search (Some l) = (Inl (Exception e), Some st)"
    by (rule list_products_refused)
next
  show "list_products db category search None = list_products db category search (Some 100)"
    by (cases db) (simp_all add: list_products_def)
qed

lemma down_store_refuses:
  "find_documents down_store ''product'' (product_query None (Some ''logo'')) =
     Inl ''connection refused''"
  by (simp add: find_documents_def down_store_def)

theorem limit_is_passed_through_witness:
  "list_products (Some demo_store) None (Some ''logo'') (Some 2) =
     (Inr (map rename_id (take 2 demo_products)), Some demo_store)
   \<and> length (map rename_id (take 2 demo_products)) = 2
   \<and> list_products (Some demo_store) None (Some ''logo'') (Some 0) = (Inr [], Some demo_store)
   \<and> list_products (Some demo_store) None (Some ''logo'') (Some (- 1)) = (Inr [], Some demo_store)
   \<and> list_products (Some demo_store) None (Some ''logo'') (Some 1000) =
       (Inr (map rename_id demo_products), Some demo_store)
   \<and> list_products (Some down_store) None (Some ''logo'') (Some 2) =
       (Inl (Exception ''connection refused''), Some down_store)
   \<and> list_products (Some demo_store) None (Some ''logo'') None =
       list_products (Some demo_store) None (Some ''logo'') (Some 100)"
proof -
  note at2 = limit_is_passed_through [of demo_store None "Some ''logo''" 2,
      THEN conjunct2, THEN conjunct1, rule_format, OF demo_logo_found,
      THEN conjunct2, THEN conjunct2, THEN conjunct1]
  note at0 = limit_is_passed_through [of demo_store None "Some ''logo''" 0,
      THEN conjunct2, THEN conjunct1, rule_format, OF demo_logo_found,
      THEN conjunct2, THEN conjunct2, THEN conjunct1]
  note atm = limit_is_passed_through [of demo_store None "Some ''logo''" "- 1",
      THEN conjunct2, THEN conjunct1, rule_format, OF demo_logo_found,
      THEN conjunct2, THEN conjunct2, THEN conjunct1]
  note atk = limit_is_passed_through [of demo_store None "Some ''logo''" 1000,
      THEN conjunct2, THEN conjunct1, rule_format, OF demo_logo_found,
      THEN conjunct2, THEN conjunct2, THEN conjunct1]
  note down = limit_is_passed_through [of down_store None "Some ''logo''" 2,
      THEN conjunct2, THEN conjunct2, THEN conjunct1, rule_format, OF down_store_refuses]
  note dflt = limit_is_passed_through [of demo_store None "Some ''logo''" 2 "Some demo_store",
      THEN conjunct2, THEN conjunct2, THEN conjunct2]
  have len: "length demo_products = 3"
    by (simp add: demo_products_def)
  from at2 have c2: "list_products (Some demo_store) None (Some ''logo'') (Some 2) =
      (Inr (map rename_id (take 2 demo_products)), Some demo_store)"
    by simp
  have l2: "length (map rename_id (take 2 demo_products)) = 2"
    by (simp add: len)
  from at0 have c0: "list_products (Some demo_store) None (Some ''logo'') (Some 0) =
      (Inr [], Some demo_store)"
    by simp
  from atm have cm: "list_products (Some demo_store) None (Some ''logo'') (Some (- 1)) =
      (Inr [], Some demo_store)"
    by simp
  from atk have ck: "list_products (Some demo_store) None (Some ''logo'') (Some 1000) =
      (Inr (map rename_id demo_products), Some demo_store)"
    by (simp add: len)
  show ?thesis
    by (intro conjI c2 l2 c0 cm ck down dflt)
qed

section \<open>The search text\<close>

lemma atoms_plain: "CHR ''.'' \<notin> set s \<Longrightarrow> atoms s = [Lits s]"
  by (induction s) auto

lemma match_anywhere_literal: "match_anywhere [Lits r] t \<longleftrightarrow> sublist r t"
  by (induction t) (simp_all add: sublist_Cons_right)

lemma interpreted_search_plain:
  assumes "CHR ''.'' \<notin> set s"
  shows "interpreted_search f s ''i'' t \<longleftrightarrow> ci_occurs f s t"
  by (simp add: interpreted_search_def atoms_plain [OF assms] match_anywhere_literal
        ci_occurs_def)

lemma plain_interpreted:
  assumes "list_all (\<lambda>c. c \<notin> set regex_special \<and> c \<noteq> CHR 0x00) s"
  shows "interpreted s ''i''" and "CHR ''.'' \<notin> set s"
  using assms by (auto simp: interpreted_def list_all_iff regex_special_def)

lemma first_error_none:
  "first_error st cs = None \<Longrightarrow> Regex pat opts \<in> set cs
     \<Longrightarrow> \<exists>test. regex_compile st pat opts = Inr test"
  by (induction st cs rule: first_error.induct) (auto split: sum.splits)

lemma search_clause:
  assumes "s \<noteq> []"
  shows "Or [[(''title'', Regex s ''i'')], [(''description'', Regex s ''i'')]]
           \<in> set (product_query category (Some s))"
  using assms by (simp add: product_query_def truthy_def)

text \<open>
  C2, amended. For every search text \<open>s\<close>, when \<open>list_products\<close> with the search text \<open>s\<close>
  returns records, the store's engine accepts \<open>s\<close> as a regular expression with the
  option \<open>i\<close>, and every record returned has a title or a description (an element of it,
  should the field hold a list) that this expression matches; only for the empty \<open>s\<close>,
  which does not narrow the listing, need no text match. When the dot is the only
  special character in \<open>s\<close> (and \<open>s\<close> holds no byte 0), the match is the one of
  \<open>interpreted_search\<close>: the dots stand for any character. When \<open>s\<close> holds no special
  character at all, the match is: \<open>s\<close> occurs, letter case aside, as a contiguous part of
  the title or of the description.
\<close>

theorem search_returns_occurrences:
  assumes "list_products (Some st) category (Some s) limit = (Inr rs, db')"
    and "r \<in> set rs"
  shows "(\<exists>test. regex_compile st s ''i'' = Inr test
            \<and> (list_ex test (texts (map_of r ''title'') @ texts (map_of r ''description''))
               \<or> s = []))
       \<and> (interpreted s ''i'' \<longrightarrow>
            (list_ex (interpreted_search (casefold st) s ''i'')
               (texts (map_of r ''title'') @ texts (map_of r ''description''))
             \<or> s = []))
       \<and> (list_all (\<lambda>c. c \<notin> set regex_special \<and> c \<noteq> CHR 0x00) s \<longrightarrow>
            (list_ex (ci_occurs (casefold st) s)
               (texts (map_of r ''title'') @ texts (map_of r ''description''))
             \<or> s = []))"
proof -
  let ?q = "product_query category (Some s)"
  let ?ts = "texts (map_of r ''title'') @ texts (map_of r ''description'')"
  from assms(1) obtain ps where ps: "rs = map rename_id ps"
    "ps = take (nat (case limit of None \<Rightarrow> 100 | Some l \<Rightarrow> l))
            (filter (matches st ?q) (docs_of st ''product''))"
    "query_error st ?q = None"
    using list_products_returns by blast
  from assms(2) ps(1) obtain p where p: "p \<in> set ps" "r = rename_id p"
    by auto
  from p(1) have m: "matches st ?q p"
    unfolding ps(2) by (auto dest: in_set_takeD)
  have fields: "map_of r ''title'' = map_of p ''title''"
    "map_of r ''description'' = map_of p ''description''"
    unfolding p(2) by (simp_all add: rename_id_keeps)
  have accepted: "\<exists>test. regex_compile st s ''i'' = Inr test
      \<and> (list_ex test ?ts \<or> s = [])"
  proof (cases "s = []")
    case True
    then have "interpreted s ''i''"
      by (simp add: interpreted_def)
    then show ?thesis
      using True by (simp add: regex_compile_def)
  next
    case False
    then have clause: "Or [[(''title'', Regex s ''i'')], [(''description'', Regex s ''i'')]]
        \<in> set ?q"
      by (rule search_clause)
    then have "Regex s ''i'' \<in> set (concat (map clause_conds ?q))"
      by (auto intro!: bexI [OF _ clause])
    with ps(3) obtain test where test: "regex_compile st s ''i'' = Inr test"
      unfolding query_error_def using first_error_none by blast
    from m have "\<forall>cl\<in>set ?q. match_clause st cl p"
      by (simp add: matches_def list_all_iff)
    with clause have
      "match_clause st (Or [[(''title'', Regex s ''i'')], [(''description'', Regex s ''i'')]]) p"
      by blast
    then have "list_ex test (texts (map_of p ''title'') @ texts (map_of p ''description''))"
      by (auto simp: match_sub_def test list_ex_iff)
    with test show ?thesis
      by (auto simp: fields)
  qed
  have dots: "list_ex (interpreted_search (casefold st) s ''i'') ?ts \<or> s = []"
    if "interpreted s ''i''"
    using accepted that by (auto simp: regex_compile_def)
  have plain: "list_ex (ci_occurs (casefold st) s) ?ts \<or> s = []"
    if "list_all (\<lambda>c. c \<notin> set regex_special \<and> c \<noteq> CHR 0x00) s"
  proof -
    note i = plain_interpreted [OF that]
    have "interpreted_search (casefold st) s ''i'' = ci_occurs (casefold st) s"
      by (rule ext) (rule interpreted_search_plain [OF i(2)])
    with dots [OF i(1)] show ?thesis
      by simp
  qed
  from accepted dots plain show ?thesis
    by blast
qed


lemma cafe_search:
  "list_products (Some cafe_store) None (Some e_acute) None =
     (Inr [rename_id (hd cafe_products)], Some cafe_store)"
  by (simp add: demo_eval cafe_store_def cafe_products_def e_acute_def)

lemma cafe_fields:
  "map_of (rename_id (hd cafe_products)) ''title'' = Some (PStr (''Caf'' @ e_acute @ '' Tee''))"
  "map_of (rename_id (hd cafe_products)) ''description'' = Some (PStr ''Soft cotton'')"
  by (simp_all add: rename_id_keeps cafe_products_def)

lemma demo_fields:
  "map_of (rename_id (demo_products ! 2)) ''title'' = Some (PStr ''Plain Hoodie'')"
  "map_of (rename_id (demo_products ! 2)) ''description'' = Some (PStr ''No LOGO here'')"
  "map_of (rename_id (hd demo_products)) ''title'' = Some (PStr ''Logo Tee'')"
  "map_of (rename_id (hd demo_products)) ''description'' = Some (PStr ''Soft cotton'')"
  by (simp_all add: rename_id_keeps demo_products_def)

theorem search_returns_occurrences_witness:
  "list_products (Some demo_store) None (Some ''logo'') None =
     (Inr (map rename_id demo_products), Some demo_store)
   \<and> list_ex (ci_occurs ascii_fold ''logo'') [''Plain Hoodie'', ''No LOGO here'']
   \<and> list_products (Some demo_store) None (Some ''l.go'') None =
       (Inr (map rename_id demo_products), Some demo_store)
   \<and> list_ex (interpreted_search ascii_fold ''l.go'' ''i'') [''Logo Tee'', ''Soft cotton'']
   \<and> list_products (Some cafe_store) None (Some e_acute) None =
       (Inr [rename_id (hd cafe_products)], Some cafe_store)
   \<and> list_ex (ci_occurs ascii_fold e_acute) [''Caf'' @ e_acute @ '' Tee'', ''Soft cotton'']"
proof -
  have fold: "casefold demo_store = ascii_fold" "casefold cafe_store = ascii_fold"
    by (simp_all add: demo_store_def cafe_store_def)
  have plain: "list_all (\<lambda>c. c \<notin> set regex_special \<and> c \<noteq> CHR 0x00) ''logo''"
    "list_all (\<lambda>c. c \<notin> set regex_special \<and> c \<noteq> CHR 0x00) e_acute"
    by (simp_all add: regex_special_def e_acute_def)
  have dots: "interpreted ''l.go'' ''i''"
    by (simp add: interpreted_def regex_special_def)
  have ne: "''logo'' \<noteq> []" "''l.go'' \<noteq> []" "e_acute \<noteq> []"
    by (simp_all add: e_acute_def)
  have r2: "rename_id (demo_products ! 2) \<in> set (map rename_id demo_products)"
    and r0: "rename_id (hd demo_products) \<in> set (map rename_id demo_products)"
    and c0: "rename_id (hd cafe_products) \<in> set [rename_id (hd cafe_products)]"
    by (simp_all add: demo_products_def)
  note logo = search_returns_occurrences [OF demo_logo_search r2,
      THEN conjunct2, THEN conjunct2, rule_format, OF plain(1)]
  note dot = search_returns_occurrences [OF demo_dot_search r0,
      THEN conjunct2, THEN conjunct1, rule_format, OF dots]
  note cafe = search_returns_occurrences [OF cafe_search c0,
      THEN conjunct2, THEN conjunct2, rule_format, OF plain(2)]
  from logo ne(1) have logo': "list_ex (ci_occurs ascii_fold ''logo'')
      [''Plain Hoodie'', ''No LOGO here'']"
    by (simp only: fold demo_fields texts.simps append.simps) simp
  from dot ne(2) have dot': "list_ex (interpreted_search ascii_fold ''l.go'' ''i'')
      [''Logo Tee'', ''Soft cotton'']"
    by (simp only: fold demo_fields texts.simps append.simps) simp
  from cafe ne(3) have cafe': "list_ex (ci_occurs ascii_fold e_acute)
      [''Caf'' @ e_acute @ '' Tee'', ''Soft cotton'']"
    by (simp only: fold cafe_fields texts.simps append.simps) simp
  show ?thesis
    by (intro conjI demo_logo_search logo' demo_dot_search dot' cafe_search cafe')
qed

text \<open>
  C2, as the specification states it, has \<open>list_products\<close> with a search text \<open>s\<close> return
  only records in which \<open>s\<close> occurs, letter case aside, in the title or in the
  description. The handler hands \<open>s\<close> to the store as a regular expression. On the store
  with the three example products the search text \<open>l.go\<close> returns all three, the dot
  standing for any character; the first has the title \<open>Logo Tee\<close> and the description
  \<open>Soft cotton\<close>, and \<open>l.go\<close> occurs in neither.
\<close>

theorem dot_search_counterexample:
  "list_products (Some demo_store) None (Some ''l.go'') None =
     (Inr (map rename_id demo_products), Some demo_store)
   \<and> casefold demo_store = ascii_fold
   \<and> map_of (rename_id (hd demo_products)) ''title'' = Some (PStr ''Logo Tee'')
   \<and> map_of (rename_id (hd demo_products)) ''description'' = Some (PStr ''Soft cotton'')
   \<and> \<not> ci_occurs ascii_fold ''l.go'' ''Logo Tee''
   \<and> \<not> ci_occurs ascii_fold ''l.go'' ''Soft cotton''"
proof -
  have fold: "casefold demo_store = ascii_fold"
    by (simp add: demo_store_def)
  show ?thesis
    by (intro conjI demo_dot_search fold demo_fields(3) demo_fields(4)
        dot_not_in_titles [THEN conjunct1] dot_not_in_titles [THEN conjunct2])
qed

end
